theory Spec2Isabelle
  imports Main "HOL-Library.Sublist"
begin

section \<open>Values, argument bundles and exceptions\<close>

text \<open>
  The server of \<^verbatim>\<open>mcp_server.py\<close> receives its arguments as a decoded JSON object, a
  Python \<^verbatim>\<open>Dict[str, Any]\<close>. The handlers do three things with a value: hand it to the
  backend unchanged, compare it with a string literal, and format it into an f-string.
  A value is therefore \<^verbatim>\<open>None\<close>, a boolean, an integer, a string, or any other JSON value
  (a float, an array, an object), which is kept with the text \<^verbatim>\<open>str()\<close> gives for it, or
  with no text when \<^verbatim>\<open>str()\<close> raises for it (see \<open>py_str\<close>). Strings are byte strings
  (UTF-8).
\<close>

datatype pyval = PNone | PBool bool | PInt int | PStr string | POther "string option"

type_synonym arguments = "string \<rightharpoonup> pyval"

text \<open>\<^verbatim>\<open>arguments.get(key, default)\<close>: the stored value when the key is present (also when
  that value is \<^verbatim>\<open>None\<close>), the default only when the key is absent.\<close>

definition dict_get :: "arguments \<Rightarrow> string \<Rightarrow> pyval \<Rightarrow> pyval" where
  "dict_get d key dflt = (case d key of None \<Rightarrow> dflt | Some v \<Rightarrow> v)"

text \<open>Decimal digits of a natural number, for \<^verbatim>\<open>str()\<close> of an integer.\<close>

fun str_nat :: "nat \<Rightarrow> string" where
  "str_nat n =
     (if n < 10 then [char_of (48 + n)]
      else str_nat (n div 10) @ [char_of (48 + n mod 10)])"

declare str_nat.simps [simp del]

text \<open>
  The exceptions of the model are instances of Python's \<^verbatim>\<open>Exception\<close>, the class every
  \<^verbatim>\<open>except Exception\<close> clause of the handlers catches: an error raised by the backend
  client (with its message), the \<^verbatim>\<open>IndexError\<close> of \<^verbatim>\<open>xs[0]\<close> on an empty list, the
  \<^verbatim>\<open>ValueError\<close> of formatting an integer that has too many digits, and the validation
  error of a \<^verbatim>\<open>TextContent\<close> whose text is not a string (with its message, which is
  pydantic's). Interpreter-level interruptions (\<^verbatim>\<open>KeyboardInterrupt\<close>, \<^verbatim>\<open>SystemExit\<close>) end the
  process and are not modelled inside a request.
\<close>

datatype pyexc = BackendError string | IndexError | ValueError | ValidationError string

fun exc_str :: "pyexc \<Rightarrow> string" where
  "exc_str (BackendError m) = m"
| "exc_str IndexError = ''list index out of range''"
| "exc_str ValueError =
     ''Exceeds the limit (4300 digits) for integer string conversion; use sys.set_int_max_str_digits() to increase the limit''"
| "exc_str (ValidationError m) = m"

text \<open>
  \<^verbatim>\<open>str(v)\<close>, which is what an f-string field \<^verbatim>\<open>{v}\<close> inserts. CPython (3.11, and 3.10 from
  3.10.7 on) refuses to convert an integer of more than 4300 decimal digits, the default
  of \<^verbatim>\<open>sys.get_int_max_str_digits()\<close>, and raises \<^verbatim>\<open>ValueError\<close>; the sign does not count. The
  same happens for an array or object that holds such an integer, which is the value
  \<open>POther None\<close>.
\<close>

definition int_max_str_digits :: nat where
  "int_max_str_digits = 4300"

fun py_str :: "pyval \<Rightarrow> pyexc + string" where
  "py_str PNone = Inr ''None''"
| "py_str (PBool b) = Inr (if b then ''True'' else ''False'')"
| "py_str (PInt i) =
     (if 10 ^ int_max_str_digits \<le> \<bar>i\<bar> then Inl ValueError
      else Inr (if i < 0 then ''-'' @ str_nat (nat (- i)) else str_nat (nat i)))"
| "py_str (PStr s) = Inr s"
| "py_str (POther r) = (case r of None \<Rightarrow> Inl ValueError | Some s \<Rightarrow> Inr s)"

text \<open>An f-string of a fixed text followed by one field: \<^verbatim>\<open>f"<lead>{v}"\<close>.\<close>

definition fstring :: "string \<Rightarrow> pyval \<Rightarrow> pyexc + string" where
  "fstring lead v = (case py_str v of Inl e \<Rightarrow> Inl e | Inr shown \<Rightarrow> Inr (lead @ shown))"

text \<open>\<^verbatim>\<open>xs[0]\<close>.\<close>

definition subscript0 :: "'a list \<Rightarrow> pyexc + 'a" where
  "subscript0 xs = (case xs of [] \<Rightarrow> Inl IndexError | x # _ \<Rightarrow> Inr x)"

text \<open>\<^verbatim>\<open>try: body except Exception as e: handler(e)\<close>.\<close>

definition try_except :: "pyexc + 'a \<Rightarrow> (pyexc \<Rightarrow> pyexc + 'a) \<Rightarrow> pyexc + 'a" where
  "try_except body handler = (case body of Inl e \<Rightarrow> handler e | Inr r \<Rightarrow> Inr r)"

section \<open>Protocol types\<close>

text \<open>\<^verbatim>\<open>TextContent(type=..., text=...)\<close> and \<^verbatim>\<open>CallToolResult(content=..., isError=...)\<close>;
  \<^verbatim>\<open>isError\<close> is \<^verbatim>\<open>False\<close> when the constructor call leaves it out.\<close>

record TextContent =
  ctype :: string
  ctext :: string

record CallToolResult =
  content :: "TextContent list"
  isError :: bool

text \<open>Building a \<^verbatim>\<open>TextContent\<close> from a value that may be \<^verbatim>\<open>None\<close>: the field \<^verbatim>\<open>text\<close> is
  declared \<^verbatim>\<open>str\<close>, so \<^verbatim>\<open>None\<close> is rejected with a validation error. The message of that
  error is written by pydantic and names the installed version, so it is the parameter
  \<open>msg\<close>.\<close>

definition TextContent_new :: "string \<Rightarrow> string option \<Rightarrow> pyexc + TextContent" where
  "TextContent_new msg t =
     (case t of None \<Rightarrow> Inl (ValidationError msg)
      | Some s \<Rightarrow> Inr \<lparr>ctype = ''text'', ctext = s\<rparr>)"

section \<open>The backend client\<close>

text \<open>
  The handlers call two operations of the process-wide \<^verbatim>\<open>openai_client\<close>:
  \<^verbatim>\<open>chat.completions.create(model=, messages=, max_tokens=)\<close> and
  \<^verbatim>\<open>images.generate(model=, prompt=, size=, quality=, n=)\<close>. A request records the keyword
  arguments of one call; a message is a pair of role and content.
\<close>

record chat_request =
  chat_model :: pyval
  chat_messages :: "(string \<times> pyval) list"
  chat_max_tokens :: pyval

record image_request =
  img_model :: pyval
  img_prompt :: pyval
  img_size :: pyval
  img_quality :: pyval
  img_n :: int

datatype backend_call = ChatCreate chat_request | ImagesGenerate image_request

type_synonym call_log = "backend_call list"

text \<open>What the handlers read of a response: \<^verbatim>\<open>response.choices[i].message.content\<close> and
  \<^verbatim>\<open>response.data[i].url\<close>, both optional strings in the client library.\<close>

record chat_response =
  choices :: "string option list"

record image_response =
  data :: "string option list"

text \<open>
  The client is not part of the repository, so it is a parameter. An operation either
  returns a response or raises; its outcome may depend on the calls made before it, which
  are the state of the model: every call is appended to the log. The third field is the
  other thing the installed libraries decide: the message of pydantic's validation error
  for a \<^verbatim>\<open>TextContent\<close> whose text is \<^verbatim>\<open>None\<close>.
\<close>

record backend =
  chat_completions_create :: "call_log \<Rightarrow> chat_request \<Rightarrow> pyexc + chat_response"
  images_generate :: "call_log \<Rightarrow> image_request \<Rightarrow> pyexc + image_response"
  validation_message :: string

section \<open>The handlers\<close>

definition handle_chat_completion ::
  "backend \<Rightarrow> arguments \<Rightarrow> call_log \<Rightarrow> (pyexc + CallToolResult) \<times> call_log" where
  "handle_chat_completion B arguments log =
     (let message = dict_get arguments ''message'' (PStr '''');
          model = dict_get arguments ''model'' (PStr ''gpt-3.5-turbo'');
          max_tokens = dict_get arguments ''max_tokens'' (PInt 1000);
          request = \<lparr>chat_model = model,
                     chat_messages = [(''user'', message)],
                     chat_max_tokens = max_tokens\<rparr>
      in (try_except
            (case chat_completions_create B log request of
               Inl e \<Rightarrow> Inl e
             | Inr response \<Rightarrow>
                 (case subscript0 (choices response) of
                    Inl e \<Rightarrow> Inl e
                  | Inr content' \<Rightarrow>
                      (case TextContent_new (validation_message B) content' of
                         Inl e \<Rightarrow> Inl e
                       | Inr block \<Rightarrow> Inr \<lparr>content = [block], isError = False\<rparr>)))
            (\<lambda>e. Inr \<lparr>content = [\<lparr>ctype = ''text'',
                                   ctext = ''Error in chat completion: '' @ exc_str e\<rparr>],
                       isError = True\<rparr>),
          log @ [ChatCreate request]))"

definition handle_generate_image ::
  "backend \<Rightarrow> arguments \<Rightarrow> call_log \<Rightarrow> (pyexc + CallToolResult) \<times> call_log" where
  "handle_generate_image B arguments log =
     (let prompt = dict_get arguments ''prompt'' (PStr '''');
          size' = dict_get arguments ''size'' (PStr ''1024x1024'');
          quality = dict_get arguments ''quality'' (PStr ''standard'');
          request = \<lparr>img_model = PStr ''dall-e-3'',
                     img_prompt = prompt,
                     img_size = size',
                     img_quality = quality,
                     img_n = 1\<rparr>
      in (try_except
            (case images_generate B log request of
               Inl e \<Rightarrow> Inl e
             | Inr response \<Rightarrow>
                 (case subscript0 (data response) of
                    Inl e \<Rightarrow> Inl e
                  | Inr image_url \<Rightarrow>
                      Inr \<lparr>content =
                             [\<lparr>ctype = ''text'',
                               ctext = ''Generated image: '' @
                                 (case image_url of None \<Rightarrow> ''None'' | Some u \<Rightarrow> u)\<rparr>],
                           isError = False\<rparr>))
            (\<lambda>e. Inr \<lparr>content = [\<lparr>ctype = ''text'',
                                   ctext = ''Error generating image: '' @ exc_str e\<rparr>],
                       isError = True\<rparr>),
          log @ [ImagesGenerate request]))"

text \<open>In \<^verbatim>\<open>handle_analyze_text\<close> the prompt is an f-string of the \<^verbatim>\<open>text\<close> field, built
  inside the \<^verbatim>\<open>try\<close> block before the backend is called: when the formatting raises,
  the \<^verbatim>\<open>except\<close> clause answers and no call is made.\<close>

definition handle_analyze_text ::
  "backend \<Rightarrow> arguments \<Rightarrow> call_log \<Rightarrow> (pyexc + CallToolResult) \<times> call_log" where
  "handle_analyze_text B arguments log =
     (let text' = dict_get arguments ''text'' (PStr '''');
          analysis_type = dict_get arguments ''analysis_type'' (PStr ''summary'');
          except = (\<lambda>e. Inr \<lparr>content = [\<lparr>ctype = ''text'',
                                           ctext = ''Error analyzing text: '' @ exc_str e\<rparr>],
                               isError = True\<rparr>)
      in (case (if analysis_type = PStr ''sentiment''
                  then fstring ''Analyze the sentiment of this text: '' text'
                else if analysis_type = PStr ''keywords''
                  then fstring ''Extract key keywords from this text: '' text'
                else fstring ''Provide a brief summary of this text: '' text') of
            Inl e \<Rightarrow> (try_except (Inl e) except, log)
          | Inr prompt \<Rightarrow>
              (let request = \<lparr>chat_model = PStr ''gpt-3.5-turbo'',
                              chat_messages = [(''user'', PStr prompt)],
                              chat_max_tokens = PInt 500\<rparr>
               in (try_except
                     (case chat_completions_create B log request of
                        Inl e \<Rightarrow> Inl e
                      | Inr response \<Rightarrow>
                          (case subscript0 (choices response) of
                             Inl e \<Rightarrow> Inl e
                           | Inr content' \<Rightarrow>
                               (case TextContent_new (validation_message B) content' of
                                  Inl e \<Rightarrow> Inl e
                                | Inr block \<Rightarrow>
                                    Inr \<lparr>content = [block], isError = False\<rparr>)))
                     except,
                   log @ [ChatCreate request]))))"

text \<open>The dispatcher: an \<^verbatim>\<open>if\<close>/\<^verbatim>\<open>elif\<close> chain on the tool name. The last branch builds its
  result without touching the backend.\<close>

definition handle_call_tool ::
  "backend \<Rightarrow> string \<Rightarrow> arguments \<Rightarrow> call_log \<Rightarrow> (pyexc + CallToolResult) \<times> call_log" where
  "handle_call_tool B name arguments log =
     (if name = ''chat_completion'' then handle_chat_completion B arguments log
      else if name = ''generate_image'' then handle_generate_image B arguments log
      else if name = ''analyze_text'' then handle_analyze_text B arguments log
      else (Inr \<lparr>content = [\<lparr>ctype = ''text'', ctext = ''Unknown tool: '' @ name\<rparr>],
                 isError = True\<rparr>,
            log))"

section \<open>The tool catalog\<close>

text \<open>
  \<^verbatim>\<open>handle_list_tools\<close> builds a \<^verbatim>\<open>ListToolsResult\<close> of three \<^verbatim>\<open>Tool\<close> values from literals.
  An input schema is a dict literal with the keys \<^verbatim>\<open>type\<close>, \<^verbatim>\<open>properties\<close> and \<^verbatim>\<open>required\<close>;
  a property has a type, a description and, for some, a default. Dict literals keep
  their order, so \<^verbatim>\<open>properties\<close> is an association list.
\<close>

record Property =
  ptype :: string
  pdescription :: string
  pdefault :: "pyval option"

record InputSchema =
  schema_type :: string
  properties :: "(string \<times> Property) list"
  required :: "string list"

record Tool =
  tool_name :: string
  tool_description :: string
  inputSchema :: InputSchema

record ListToolsResult =
  tools :: "Tool list"

text \<open>The function takes no argument and reads no variable; the model passes the state
  (the log of backend calls) through it, so that leaving the state alone is a statement.\<close>

definition handle_list_tools :: "call_log \<Rightarrow> ListToolsResult \<times> call_log" where
  "handle_list_tools log =
     (\<lparr>tools =
         [\<lparr>tool_name = ''chat_completion'',
           tool_description = ''Send a message to OpenAI's chat completion API'',
           inputSchema =
             \<lparr>schema_type = ''object'',
              properties =
                [(''message'',
                  \<lparr>ptype = ''string'',
                   pdescription = ''The message to send to OpenAI'',
                   pdefault = None\<rparr>),
                 (''model'',
                  \<lparr>ptype = ''string'',
                   pdescription = ''The OpenAI model to use (default: gpt-3.5-turbo)'',
                   pdefault = Some (PStr ''gpt-3.5-turbo'')\<rparr>),
                 (''max_tokens'',
                  \<lparr>ptype = ''integer'',
                   pdescription = ''Maximum tokens to generate'',
                   pdefault = Some (PInt 1000)\<rparr>)],
              required = [''message'']\<rparr>\<rparr>,
          \<lparr>tool_name = ''generate_image'',
           tool_description = ''Generate an image using OpenAI's DALL-E API'',
           inputSchema =
             \<lparr>schema_type = ''object'',
              properties =
                [(''prompt'',
                  \<lparr>ptype = ''string'',
                   pdescription = ''The prompt for image generation'',
                   pdefault = None\<rparr>),
                 (''size'',
                  \<lparr>ptype = ''string'',
                   pdescription = ''Image size (1024x1024, 1792x1024, 1024x1792)'',
                   pdefault = Some (PStr ''1024x1024'')\<rparr>),
                 (''quality'',
                  \<lparr>ptype = ''string'',
                   pdescription = ''Image quality (standard, hd)'',
                   pdefault = Some (PStr ''standard'')\<rparr>)],
              required = [''prompt'']\<rparr>\<rparr>,
          \<lparr>tool_name = ''analyze_text'',
           tool_description = ''Analyze text using OpenAI's API'',
           inputSchema =
             \<lparr>schema_type = ''object'',
              properties =
                [(''text'',
                  \<lparr>ptype = ''string'',
                   pdescription = ''The text to analyze'',
                   pdefault = None\<rparr>),
                 (''analysis_type'',
                  \<lparr>ptype = ''string'',
                   pdescription = ''Type of analysis (sentiment, summary, keywords)'',
                   pdefault = Some (PStr ''summary'')\<rparr>)],
              required = [''text'']\<rparr>\<rparr>]\<rparr>,
      log)"

text \<open>Calling \<^verbatim>\<open>handle_list_tools\<close> \<open>n\<close> times in a row: the results in order, and the state
  after the last call.\<close>

primrec repeat_list_tools :: "nat \<Rightarrow> call_log \<Rightarrow> ListToolsResult list \<times> call_log" where
  "repeat_list_tools 0 log = ([], log)"
| "repeat_list_tools (Suc n) log =
     (case handle_list_tools log of
        (r, log') \<Rightarrow>
          (case repeat_list_tools n log' of (rs, log'') \<Rightarrow> (r # rs, log'')))"

text \<open>What two catalogs are compared on: the set of tool names, and per tool the set of
  its fields, its list of required fields and the defaults it declares.\<close>

definition tool_names :: "ListToolsResult \<Rightarrow> string set" where
  "tool_names r = set (map tool_name (tools r))"

definition field_sets :: "ListToolsResult \<Rightarrow> (string \<times> string set) list" where
  "field_sets r =
     map (\<lambda>t. (tool_name t, set (map fst (properties (inputSchema t))))) (tools r)"

definition required_lists :: "ListToolsResult \<Rightarrow> (string \<times> string list) list" where
  "required_lists r = map (\<lambda>t. (tool_name t, required (inputSchema t))) (tools r)"

definition declared_defaults ::
  "ListToolsResult \<Rightarrow> (string \<times> (string \<times> pyval option) list) list" where
  "declared_defaults r =
     map (\<lambda>t. (tool_name t, map (\<lambda>(f, p). (f, pdefault p)) (properties (inputSchema t))))
       (tools r)"

text \<open>The default a catalog declares for one field of one tool, if any.\<close>

definition schema_default :: "ListToolsResult \<Rightarrow> string \<Rightarrow> string \<Rightarrow> pyval option" where
  "schema_default r tool field =
     (case find (\<lambda>t. tool_name t = tool) (tools r) of
        None \<Rightarrow> None
      | Some t \<Rightarrow>
          (case map_of (properties (inputSchema t)) field of
             None \<Rightarrow> None
           | Some p \<Rightarrow> pdefault p))"

section \<open>Startup\<close>

text \<open>
  What the process does from its start to its exit, as a list of events: a line printed
  on standard output, the traceback of an exception nobody caught, and the call of
  \<^verbatim>\<open>server.server.run\<close>, inside which the MCP library negotiates and dispatches.
\<close>

datatype event = Stdout string | Traceback pyexc | ServerRun

text \<open>How a Python function ends: it returns, it raises, or \<^verbatim>\<open>sys.exit(code)\<close> was called.\<close>

datatype outcome = Returned | Raised pyexc | SystemExit int

text \<open>
  \<^verbatim>\<open>main\<close>, given the value of \<^verbatim>\<open>os.getenv("OPENAI_API_KEY")\<close> and how the block
  \<^verbatim>\<open>async with stdio_server()\<close> around \<^verbatim>\<open>server.server.run\<close> ends (it returns when the stream
  is closed, or raises). Building \<^verbatim>\<open>OpenAIMCPServer()\<close> registers the handlers and does
  nothing that can be observed. Python's \<^verbatim>\<open>not\<close> holds of \<^verbatim>\<open>None\<close> and of the empty string.
\<close>

definition main :: "string option \<Rightarrow> pyexc + unit \<Rightarrow> outcome \<times> event list" where
  "main api_key run =
     (if api_key = None \<or> api_key = Some [] then
        (SystemExit 1,
         [Stdout ''Error: OPENAI_API_KEY environment variable is not set'',
          Stdout ''Please set your OpenAI API key in the .env file or environment''])
      else
        (let banner =
               [Stdout ''Starting OpenAI MCP Server...'',
                Stdout ''Available tools:'',
                Stdout ''- chat_completion: Send messages to OpenAI's chat completion API'',
                Stdout ''- generate_image: Generate images using DALL-E'',
                Stdout ''- analyze_text: Analyze text for sentiment, summary, or keywords'']
         in (case run of
               Inl e \<Rightarrow> (Raised e, banner @ [ServerRun])
             | Inr _ \<Rightarrow> (Returned, banner @ [ServerRun]))))"

text \<open>
  The module as a script: the module-level statement
  \<^verbatim>\<open>openai_client = openai.OpenAI(api_key=os.getenv("OPENAI_API_KEY"))\<close> runs first, then
  \<^verbatim>\<open>asyncio.run(main())\<close>. The constructor belongs to the client library and is a parameter:
  it returns or raises. An exception nobody catches ends the process with a traceback
  and exit code 1; \<^verbatim>\<open>sys.exit(c)\<close> ends it with code \<open>c\<close>; otherwise the code is 0.
  The result is the exit code and the events.
\<close>

definition run_module ::
  "string option \<Rightarrow> (string option \<Rightarrow> pyexc + unit) \<Rightarrow> pyexc + unit \<Rightarrow> int \<times> event list" where
  "run_module api_key client_init run =
     (case client_init api_key of
        Inl e \<Rightarrow> (1, [Traceback e])
      | Inr _ \<Rightarrow>
          (case main api_key run of
             (Returned, events) \<Rightarrow> (0, events)
           | (Raised e, events) \<Rightarrow> (1, events @ [Traceback e])
           | (SystemExit c, events) \<Rightarrow> (c, events)))"

section \<open>Observations on a backend call, and backends for the examples\<close>


text \<open>The text a result carries when the backend call \<open>c\<close>, made in state \<open>log\<close>, returned
  a response the handler can use: the content of the first choice of a completion, or
  \<^verbatim>\<open>Generated image: \<close> with the URL of the first image. There is none when the call raised,
  the response is empty, or the content of the first choice is \<^verbatim>\<open>None\<close>.\<close>

definition response_text :: "backend \<Rightarrow> call_log \<Rightarrow> backend_call \<Rightarrow> string option" where
  "response_text B log c =
     (case c of
        ChatCreate q \<Rightarrow>
          (case chat_completions_create B log q of
             Inl e \<Rightarrow> None
           | Inr response \<Rightarrow>
               (case choices response of
                  [] \<Rightarrow> None
                | shown # rest \<Rightarrow> shown))
      | ImagesGenerate q \<Rightarrow>
          (case images_generate B log q of
             Inl e \<Rightarrow> None
           | Inr response \<Rightarrow>
               (case data response of
                  [] \<Rightarrow> None
                | u # rest \<Rightarrow>
                    Some (''Generated image: '' @ (case u of None \<Rightarrow> ''None'' | Some url \<Rightarrow> url)))))"

text \<open>The diagnostics of the server: each registered tool has its own lead, and a name
  that is not registered gets one fixed text.\<close>

definition tool_diagnostic :: "string \<Rightarrow> string \<Rightarrow> bool" where
  "tool_diagnostic name t =
     (if name = ''chat_completion'' then prefix ''Error in chat completion: '' t
      else if name = ''generate_image'' then prefix ''Error generating image: '' t
      else if name = ''analyze_text'' then prefix ''Error analyzing text: '' t
      else t = ''Unknown tool: '' @ name)"

text \<open>A backend that raises the same error on every call, and one that answers every
  call with one fixed text or URL. Neither ever leads to a validation error, so the
  message they give for it is a placeholder.\<close>

definition failing_backend :: "string \<Rightarrow> backend" where
  "failing_backend m =
     \<lparr>chat_completions_create = (\<lambda>log q. Inl (BackendError m)),
      images_generate = (\<lambda>log q. Inl (BackendError m)),
      validation_message = ''validation error''\<rparr>"

definition fixed_backend :: "string \<Rightarrow> backend" where
  "fixed_backend s =
     \<lparr>chat_completions_create = (\<lambda>log q. Inr \<lparr>choices = [Some s]\<rparr>),
      images_generate = (\<lambda>log q. Inr \<lparr>data = [Some s]\<rparr>),
      validation_message = ''validation error''\<rparr>"

text \<open>
  What a handler with the diagnostic lead \<open>lead\<close> owes for one request, as a property of
  the pair it returns for the state \<open>log\<close>: it returned (it did not raise) a result with
  exactly one text block; a result flagged as an error begins with the lead; a result not
  flagged as an error comes with exactly one backend call and carries the text of its
  response; and whenever the call made has such a text, the result is not an error.
\<close>

definition handler_envelope ::
  "string \<Rightarrow> backend \<Rightarrow> call_log \<Rightarrow> (pyexc + CallToolResult) \<times> call_log \<Rightarrow> bool" where
  "handler_envelope lead B log res =
     (\<exists>r t. fst res = Inr r
        \<and> content r = [\<lparr>ctype = ''text'', ctext = t\<rparr>]
        \<and> (isError r \<longrightarrow> prefix lead t)
        \<and> (\<not> isError r \<longrightarrow> (\<exists>c. snd res = log @ [c] \<and> response_text B log c = Some t))
        \<and> (\<forall>c t'. snd res = log @ [c] \<and> response_text B log c = Some t' \<longrightarrow>
              \<not> isError r \<and> t = t'))"

text \<open>The envelope of the dispatcher: that of the handler the name selects, with the
  diagnostic of that name.\<close>

definition dispatch_envelope ::
  "string \<Rightarrow> backend \<Rightarrow> call_log \<Rightarrow> (pyexc + CallToolResult) \<times> call_log \<Rightarrow> bool" where
  "dispatch_envelope name B log res =
     (\<exists>r t. fst res = Inr r
        \<and> content r = [\<lparr>ctype = ''text'', ctext = t\<rparr>]
        \<and> (isError r \<longrightarrow> tool_diagnostic name t)
        \<and> (\<not> isError r \<longrightarrow> (\<exists>c. snd res = log @ [c] \<and> response_text B log c = Some t))
        \<and> (\<forall>c t'. snd res = log @ [c] \<and> response_text B log c = Some t' \<longrightarrow>
              \<not> isError r \<and> t = t'))"

section \<open>The result of a handler is always an envelope\<close>

text \<open>The shapes of a handler's \<^verbatim>\<open>try\<close> block, with the diagnostic lead left open: every
  way through a shape ends in an envelope.\<close>

lemma error_envelope:
  "handler_envelope lead B log
     (try_except (Inl e)
        (\<lambda>e. Inr \<lparr>content = [\<lparr>ctype = ''text'', ctext = lead @ exc_str e\<rparr>],
                   isError = True\<rparr>),
      log)"
  by (simp add: handler_envelope_def try_except_def)

lemma chat_body_envelope:
  "handler_envelope lead B log
    (try_except
       (case chat_completions_create B log q of
          Inl e \<Rightarrow> Inl e
        | Inr response \<Rightarrow>
            (case subscript0 (choices response) of
               Inl e \<Rightarrow> Inl e
             | Inr content' \<Rightarrow>
                 (case TextContent_new msg content' of
                    Inl e \<Rightarrow> Inl e
                  | Inr block \<Rightarrow> Inr \<lparr>content = [block], isError = False\<rparr>)))
       (\<lambda>e. Inr \<lparr>content = [\<lparr>ctype = ''text'', ctext = lead @ exc_str e\<rparr>],
                  isError = True\<rparr>),
     log @ [ChatCreate q])"
proof (cases "chat_completions_create B log q")
  case (Inl e)
  then show ?thesis
    by (simp add: handler_envelope_def try_except_def response_text_def)
next
  case (Inr response)
  show ?thesis
  proof (cases "choices response")
    case Nil
    with Inr show ?thesis
      by (simp add: handler_envelope_def try_except_def response_text_def subscript0_def)
  next
    case (Cons shown rest)
    with Inr show ?thesis
      by (cases shown)
        (simp_all add: handler_envelope_def try_except_def response_text_def subscript0_def
           TextContent_new_def)
  qed
qed

lemma image_body_envelope:
  "handler_envelope lead B log
    (try_except
       (case images_generate B log q of
          Inl e \<Rightarrow> Inl e
        | Inr response \<Rightarrow>
            (case subscript0 (data response) of
               Inl e \<Rightarrow> Inl e
             | Inr image_url \<Rightarrow>
                 Inr \<lparr>content =
                        [\<lparr>ctype = ''text'',
                          ctext = ''Generated image: '' @
                            (case image_url of None \<Rightarrow> ''None'' | Some u \<Rightarrow> u)\<rparr>],
                      isError = False\<rparr>))
       (\<lambda>e. Inr \<lparr>content = [\<lparr>ctype = ''text'', ctext = lead @ exc_str e\<rparr>],
                  isError = True\<rparr>),
     log @ [ImagesGenerate q])"
proof (cases "images_generate B log q")
  case (Inl e)
  then show ?thesis
    by (simp add: handler_envelope_def try_except_def response_text_def)
next
  case (Inr response)
  then show ?thesis
    by (cases "data response")
      (simp_all add: handler_envelope_def try_except_def response_text_def subscript0_def)
qed

lemma sum_case_cases:
  "(\<And>e. P (f e)) \<Longrightarrow> (\<And>p. P (g p)) \<Longrightarrow> P (case x of Inl e \<Rightarrow> f e | Inr p \<Rightarrow> g p)"
  by (cases x) simp_all

lemma chat_completion_envelope:
  "handler_envelope ''Error in chat completion: '' B log (handle_chat_completion B arguments log)"
  unfolding handle_chat_completion_def Let_def by (rule chat_body_envelope)

lemma generate_image_envelope:
  "handler_envelope ''Error generating image: '' B log (handle_generate_image B arguments log)"
  unfolding handle_generate_image_def Let_def by (rule image_body_envelope)

lemma analyze_text_envelope:
  "handler_envelope ''Error analyzing text: '' B log (handle_analyze_text B arguments log)"
  unfolding handle_analyze_text_def Let_def
  by (rule sum_case_cases [where P = "handler_envelope ''Error analyzing text: '' B log"])
    (rule error_envelope, rule chat_body_envelope)

text \<open>The dispatcher sends each registered name to its handler.\<close>

lemma call_tool_chat_completion:
  "handle_call_tool B ''chat_completion'' arguments log = handle_chat_completion B arguments log"
  by (simp add: handle_call_tool_def)

lemma call_tool_generate_image:
  "handle_call_tool B ''generate_image'' arguments log = handle_generate_image B arguments log"
  by (simp add: handle_call_tool_def)

lemma call_tool_analyze_text:
  "handle_call_tool B ''analyze_text'' arguments log = handle_analyze_text B arguments log"
  by (simp add: handle_call_tool_def)

lemma call_tool_other:
  "name \<noteq> ''chat_completion'' \<Longrightarrow> name \<noteq> ''generate_image'' \<Longrightarrow> name \<noteq> ''analyze_text'' \<Longrightarrow>
   handle_call_tool B name arguments log =
     (Inr \<lparr>content = [\<lparr>ctype = ''text'', ctext = ''Unknown tool: '' @ name\<rparr>],
           isError = True\<rparr>, log)"
  unfolding handle_call_tool_def by (simp only: if_False)

lemma tool_diagnostic_registered:
  "tool_diagnostic ''chat_completion'' t = prefix ''Error in chat completion: '' t"
  "tool_diagnostic ''generate_image'' t = prefix ''Error generating image: '' t"
  "tool_diagnostic ''analyze_text'' t = prefix ''Error analyzing text: '' t"
  by (simp_all add: tool_diagnostic_def)

lemma tool_diagnostic_other:
  "name \<noteq> ''chat_completion'' \<Longrightarrow> name \<noteq> ''generate_image'' \<Longrightarrow> name \<noteq> ''analyze_text'' \<Longrightarrow>
   tool_diagnostic name t = (t = ''Unknown tool: '' @ name)"
  unfolding tool_diagnostic_def by (simp only: if_False)

lemma dispatch_envelopeI:
  assumes "handler_envelope lead B log res"
    and "\<And>t. tool_diagnostic name t = prefix lead t"
  shows "dispatch_envelope name B log res"
  using assms(1) unfolding handler_envelope_def dispatch_envelope_def assms(2) .

lemma call_tool_envelope: "dispatch_envelope name B log (handle_call_tool B name arguments log)"
proof -
  consider (chat) "name = ''chat_completion''"
    | (image) "name = ''generate_image''"
    | (analyze) "name = ''analyze_text''"
    | (other) "name \<noteq> ''chat_completion''" "name \<noteq> ''generate_image''" "name \<noteq> ''analyze_text''"
    by blast
  then show ?thesis
  proof cases
    case chat
    show ?thesis
      unfolding chat call_tool_chat_completion
      by (rule dispatch_envelopeI [OF chat_completion_envelope tool_diagnostic_registered(1)])
  next
    case image
    show ?thesis
      unfolding image call_tool_generate_image
      by (rule dispatch_envelopeI [OF generate_image_envelope tool_diagnostic_registered(2)])
  next
    case analyze
    show ?thesis
      unfolding analyze call_tool_analyze_text
      by (rule dispatch_envelopeI [OF analyze_text_envelope tool_diagnostic_registered(3)])
  next
    case other
    show ?thesis
      unfolding call_tool_other [OF other] dispatch_envelope_def tool_diagnostic_other [OF other]
      by simp
  qed
qed


text \<open>
  Claim C1. For every tool name, argument bundle, backend and state, the dispatcher
  returns one result and does not raise. The result has exactly one text block. When it
  is flagged \<^verbatim>\<open>isError\<close> the text is the diagnostic of the tool named. When it is not,
  exactly one backend call was made and the text is the output of that call: the content
  of the first choice, or \<^verbatim>\<open>Generated image: \<close> with the URL; and whenever the call made
  has such an output, the result is not flagged and carries it. A registered name gets
  the result and the state of its own handler.
\<close>

theorem call_tool_one_envelope:
  "\<exists>r t. fst (handle_call_tool B name arguments log) = Inr r
     \<and> content r = [\<lparr>ctype = ''text'', ctext = t\<rparr>]
     \<and> (isError r \<longrightarrow> tool_diagnostic name t)
     \<and> (\<not> isError r \<longrightarrow>
          (\<exists>c. snd (handle_call_tool B name arguments log) = log @ [c]
             \<and> response_text B log c = Some t))
     \<and> (\<forall>c t'. snd (handle_call_tool B name arguments log) = log @ [c]
             \<and> response_text B log c = Some t' \<longrightarrow> \<not> isError r \<and> t = t')
     \<and> (name = ''chat_completion'' \<longrightarrow>
          handle_call_tool B name arguments log = handle_chat_completion B arguments log)
     \<and> (name = ''generate_image'' \<longrightarrow>
          handle_call_tool B name arguments log = handle_generate_image B arguments log)
     \<and> (name = ''analyze_text'' \<longrightarrow>
          handle_call_tool B name arguments log = handle_analyze_text B arguments log)"
proof -
  from call_tool_envelope [of name B log arguments]
  obtain r t where envelope:
      "fst (handle_call_tool B name arguments log) = Inr r"
      "content r = [\<lparr>ctype = ''text'', ctext = t\<rparr>]"
      "isError r \<longrightarrow> tool_diagnostic name t"
      "\<not> isError r \<longrightarrow>
         (\<exists>c. snd (handle_call_tool B name arguments log) = log @ [c]
            \<and> response_text B log c = Some t)"
      "\<forall>c t'. snd (handle_call_tool B name arguments log) = log @ [c]
            \<and> response_text B log c = Some t' \<longrightarrow> \<not> isError r \<and> t = t'"
    unfolding dispatch_envelope_def by blast
  have chat: "name = ''chat_completion'' \<longrightarrow>
      handle_call_tool B name arguments log = handle_chat_completion B arguments log"
  proof
    assume n: "name = ''chat_completion''"
    show "handle_call_tool B name arguments log = handle_chat_completion B arguments log"
      unfolding n by (rule call_tool_chat_completion)
  qed
  have image: "name = ''generate_image'' \<longrightarrow>
      handle_call_tool B name arguments log = handle_generate_image B arguments log"
  proof
    assume n: "name = ''generate_image''"
    show "handle_call_tool B name arguments log = handle_generate_image B arguments log"
      unfolding n by (rule call_tool_generate_image)
  qed
  have analyze: "name = ''analyze_text'' \<longrightarrow>
      handle_call_tool B name arguments log = handle_analyze_text B arguments log"
  proof
    assume n: "name = ''analyze_text''"
    show "handle_call_tool B name arguments log = handle_analyze_text B arguments log"
      unfolding n by (rule call_tool_analyze_text)
  qed
  from envelope chat image analyze show ?thesis
    by (intro exI [of _ r] exI [of _ t] conjI)
qed

theorem call_tool_one_envelope_witness:
  "fst (handle_call_tool (failing_backend ''boom'') ''chat_completion'' Map.empty []) =
     Inr \<lparr>content = [\<lparr>ctype = ''text'', ctext = ''Error in chat completion: boom''\<rparr>],
          isError = True\<rparr>
   \<and> tool_diagnostic ''chat_completion'' ''Error in chat completion: boom''
   \<and> fst (handle_call_tool (fixed_backend ''ok'') ''chat_completion'' Map.empty []) =
     Inr \<lparr>content = [\<lparr>ctype = ''text'', ctext = ''ok''\<rparr>], isError = False\<rparr>
   \<and> (\<exists>c. snd (handle_call_tool (fixed_backend ''ok'') ''chat_completion'' Map.empty [])
            = [] @ [c]
        \<and> response_text (fixed_backend ''ok'') [] c = Some ''ok'')
   \<and> handle_call_tool (fixed_backend ''ok'') ''chat_completion'' Map.empty [] =
     handle_chat_completion (fixed_backend ''ok'') Map.empty []"
proof -
  let ?bad = "handle_call_tool (failing_backend ''boom'') ''chat_completion'' Map.empty []"
  let ?good = "handle_call_tool (fixed_backend ''ok'') ''chat_completion'' Map.empty []"
  have bad: "fst ?bad =
     Inr \<lparr>content = [\<lparr>ctype = ''text'', ctext = ''Error in chat completion: boom''\<rparr>],
          isError = True\<rparr>"
    by (simp add: handle_call_tool_def handle_chat_completion_def Let_def try_except_def
          failing_backend_def)
  have good: "fst ?good =
     Inr \<lparr>content = [\<lparr>ctype = ''text'', ctext = ''ok''\<rparr>], isError = False\<rparr>"
    by (simp add: handle_call_tool_def handle_chat_completion_def Let_def try_except_def
          fixed_backend_def subscript0_def TextContent_new_def)
  from call_tool_one_envelope [of "failing_backend ''boom''" "''chat_completion''" Map.empty "[]"]
  obtain r t where r: "fst ?bad = Inr r" "content r = [\<lparr>ctype = ''text'', ctext = t\<rparr>]"
      "isError r \<longrightarrow> tool_diagnostic ''chat_completion'' t"
    by blast
  from r(1) bad have "r = \<lparr>content = [\<lparr>ctype = ''text'',
      ctext = ''Error in chat completion: boom''\<rparr>], isError = True\<rparr>"
    by (simp only: sum.inject)
  with r(2) have "isError r" and "t = ''Error in chat completion: boom''"
    by simp_all
  with r(3) have diag: "tool_diagnostic ''chat_completion'' ''Error in chat completion: boom''"
    by (simp only: simp_thms)
  from call_tool_one_envelope [of "fixed_backend ''ok''" "''chat_completion''" Map.empty "[]"]
  obtain r' t' where r': "fst ?good = Inr r'"
      "content r' = [\<lparr>ctype = ''text'', ctext = t'\<rparr>]"
      "\<not> isError r' \<longrightarrow>
         (\<exists>c. snd ?good = [] @ [c] \<and> response_text (fixed_backend ''ok'') [] c = Some t')"
      "''chat_completion'' = ''chat_completion'' \<longrightarrow>
         ?good = handle_chat_completion (fixed_backend ''ok'') Map.empty []"
    by blast
  from r'(1) good have "r' = \<lparr>content = [\<lparr>ctype = ''text'', ctext = ''ok''\<rparr>],
      isError = False\<rparr>"
    by (simp only: sum.inject)
  with r'(2) have "\<not> isError r'" and "t' = ''ok''"
    by simp_all
  with r'(3) have called: "\<exists>c. snd ?good = [] @ [c]
      \<and> response_text (fixed_backend ''ok'') [] c = Some ''ok''"
    by (simp only: simp_thms)
  from r'(4) have routed: "?good = handle_chat_completion (fixed_backend ''ok'') Map.empty []"
    by (simp only: simp_thms)
  from bad diag good called routed show ?thesis by (intro conjI)
qed

text \<open>
  Claim C2. A tool name other than the three registered ones gives, for every argument
  bundle, the error result whose only block reads \<^verbatim>\<open>Unknown tool: \<close> followed by the name,
  and the state is the one before the call: no backend call was made.
\<close>

theorem call_tool_unknown:
  assumes "name \<noteq> ''chat_completion''" and "name \<noteq> ''generate_image''"
    and "name \<noteq> ''analyze_text''"
  shows "handle_call_tool B name arguments log =
           (Inr \<lparr>content = [\<lparr>ctype = ''text'', ctext = ''Unknown tool: '' @ name\<rparr>],
                 isError = True\<rparr>, log)"
  unfolding handle_call_tool_def using assms by (simp only: if_False)

theorem call_tool_unknown_witness:
  "handle_call_tool (fixed_backend ''ok'') ''nonexistent_tool'' Map.empty [] =
     (Inr \<lparr>content = [\<lparr>ctype = ''text'', ctext = ''Unknown tool: nonexistent_tool''\<rparr>],
           isError = True\<rparr>, [])"
  using call_tool_unknown [of "''nonexistent_tool''" "fixed_backend ''ok''" Map.empty "[]"]
  by simp

section \<open>Backend failures\<close>





text \<open>The prompt of \<^verbatim>\<open>analyze_text\<close>: when the \<^verbatim>\<open>text\<close> field can be formatted the handler
  goes on to its backend call, and when it cannot, the handler answers with the error
  and the state is left as it was.\<close>

lemma if_Inr3:
  "(if a then Inr x else if b then Inr y else Inr z) =
   Inr (if a then x else if b then y else z)"
  by simp

lemma if_same3: "(if a then x else if b then x else x) = x"
  by simp

lemma fstring_formatted: "py_str v = Inr shown \<Longrightarrow> fstring lead v = Inr (lead @ shown)"
  by (simp add: fstring_def)

lemma fstring_raises: "py_str v = Inl e \<Longrightarrow> fstring lead v = Inl e"
  by (simp add: fstring_def)

lemma analyze_text_log:
  assumes "py_str (dict_get arguments ''text'' (PStr '''')) = Inr shown"
  shows "snd (handle_analyze_text B arguments log) =
     log @ [ChatCreate
              \<lparr>chat_model = PStr ''gpt-3.5-turbo'',
               chat_messages =
                 [(''user'',
                   PStr (if dict_get arguments ''analysis_type'' (PStr ''summary'')
                            = PStr ''sentiment''
                         then ''Analyze the sentiment of this text: '' @ shown
                         else if dict_get arguments ''analysis_type'' (PStr ''summary'')
                            = PStr ''keywords''
                         then ''Extract key keywords from this text: '' @ shown
                         else ''Provide a brief summary of this text: '' @ shown))],
               chat_max_tokens = PInt 500\<rparr>]"
  unfolding handle_analyze_text_def Let_def
    fstring_formatted [where v = "dict_get arguments ''text'' (PStr '''')", OF assms]
    if_Inr3 sum.case snd_conv
  by (rule refl)


lemma analyze_text_unformattable:
  assumes "py_str (dict_get arguments ''text'' (PStr '''')) = Inl e"
  shows "handle_analyze_text B arguments log =
     (Inr \<lparr>content = [\<lparr>ctype = ''text'', ctext = ''Error analyzing text: '' @ exc_str e\<rparr>],
           isError = True\<rparr>, log)"
  unfolding handle_analyze_text_def Let_def
    fstring_raises [where v = "dict_get arguments ''text'' (PStr '''')", OF assms]
    if_same3 sum.case try_except_def
  by (rule refl)




section \<open>The backend calls of chat_completion and analyze_text\<close>

lemma dict_get_absent: "d key = None \<Longrightarrow> dict_get d key dflt = dflt"
  by (simp add: dict_get_def)

lemma dict_get_present: "d key = Some v \<Longrightarrow> dict_get d key dflt = v"
  by (simp add: dict_get_def)

lemma chat_completion_log:
  "snd (handle_chat_completion B arguments log) =
     log @ [ChatCreate
              \<lparr>chat_model = dict_get arguments ''model'' (PStr ''gpt-3.5-turbo''),
               chat_messages = [(''user'', dict_get arguments ''message'' (PStr ''''))],
               chat_max_tokens = dict_get arguments ''max_tokens'' (PInt 1000)\<rparr>]"
  unfolding handle_chat_completion_def Let_def snd_conv by (rule refl)

lemma generate_image_log:
  "snd (handle_generate_image B arguments log) =
     log @ [ImagesGenerate
              \<lparr>img_model = PStr ''dall-e-3'',
               img_prompt = dict_get arguments ''prompt'' (PStr ''''),
               img_size = dict_get arguments ''size'' (PStr ''1024x1024''),
               img_quality = dict_get arguments ''quality'' (PStr ''standard''),
               img_n = 1\<rparr>]"
  unfolding handle_generate_image_def Let_def snd_conv by (rule refl)

lemma declared_default_model:
  "schema_default (fst (handle_list_tools log)) ''chat_completion'' ''model'' =
     Some (PStr ''gpt-3.5-turbo'')"
  by (simp add: schema_default_def handle_list_tools_def)

lemma declared_default_max_tokens:
  "schema_default (fst (handle_list_tools log)) ''chat_completion'' ''max_tokens'' =
     Some (PInt 1000)"
  by (simp add: schema_default_def handle_list_tools_def)

text \<open>
  Claim C4. \<^verbatim>\<open>chat_completion\<close> makes one backend call. When the argument bundle has no
  \<^verbatim>\<open>model\<close> key the call's model is \<^verbatim>\<open>"gpt-3.5-turbo"\<close>, and when it has no \<^verbatim>\<open>max_tokens\<close> key
  the call's \<^verbatim>\<open>max_tokens\<close> is 1000; both are the defaults the catalog of \<^verbatim>\<open>list_tools\<close>
  declares for these fields. A key that is present passes its value on.
\<close>

theorem chat_completion_defaults:
  "\<exists>q. snd (handle_chat_completion B arguments log) = log @ [ChatCreate q]
     \<and> (arguments ''model'' = None \<longrightarrow>
          chat_model q = PStr ''gpt-3.5-turbo''
          \<and> schema_default (fst (handle_list_tools log)) ''chat_completion'' ''model''
              = Some (chat_model q))
     \<and> (arguments ''max_tokens'' = None \<longrightarrow>
          chat_max_tokens q = PInt 1000
          \<and> schema_default (fst (handle_list_tools log)) ''chat_completion'' ''max_tokens''
              = Some (chat_max_tokens q))
     \<and> (\<forall>v. arguments ''model'' = Some v \<longrightarrow> chat_model q = v)
     \<and> (\<forall>v. arguments ''max_tokens'' = Some v \<longrightarrow> chat_max_tokens q = v)"
proof (intro exI conjI impI allI)
  show "snd (handle_chat_completion B arguments log) =
     log @ [ChatCreate
              \<lparr>chat_model = dict_get arguments ''model'' (PStr ''gpt-3.5-turbo''),
               chat_messages = [(''user'', dict_get arguments ''message'' (PStr ''''))],
               chat_max_tokens = dict_get arguments ''max_tokens'' (PInt 1000)\<rparr>]"
    by (rule chat_completion_log)
qed (simp_all only: chat_request.simps dict_get_absent dict_get_present
       declared_default_model declared_default_max_tokens)

theorem chat_completion_defaults_witness:
  "\<exists>q. snd (handle_chat_completion (fixed_backend ''hello'') [''message'' \<mapsto> PStr ''hi''] [])
         = [] @ [ChatCreate q]
     \<and> chat_model q = PStr ''gpt-3.5-turbo''
     \<and> chat_max_tokens q = PInt 1000
     \<and> schema_default (fst (handle_list_tools [])) ''chat_completion'' ''model''
          = Some (chat_model q)
     \<and> schema_default (fst (handle_list_tools [])) ''chat_completion'' ''max_tokens''
          = Some (chat_max_tokens q)"
proof -
  have a: "[''message'' \<mapsto> PStr ''hi''] ''model'' = None"
    and b: "[''message'' \<mapsto> PStr ''hi''] ''max_tokens'' = None"
    by simp_all
  from chat_completion_defaults
    [of "fixed_backend ''hello''" "[''message'' \<mapsto> PStr ''hi'']" "[]"] a b
  show ?thesis by blast
qed

lemma summary_is_no_other_type:
  "PStr ''summary'' \<noteq> PStr ''sentiment''" "PStr ''summary'' \<noteq> PStr ''keywords''"
  "PStr ''keywords'' \<noteq> PStr ''sentiment''"
  by simp_all


text \<open>
  Claim C5, amended. For every argument bundle whose \<^verbatim>\<open>text\<close> field can be formatted,
  \<^verbatim>\<open>analyze_text\<close> makes one completion call whose only message is the derived prompt: for
  \<^verbatim>\<open>analysis_type\<close> \<^verbatim>\<open>"sentiment"\<close> the sentiment template, which contains the phrase
  \<^verbatim>\<open>Analyze the sentiment of this text:\<close>; for \<^verbatim>\<open>"keywords"\<close> the keyword template; for every
  other value, and when the key is absent, the summary template. Each template is
  followed by \<^verbatim>\<open>str()\<close> of the \<^verbatim>\<open>text\<close> field. When the field cannot be formatted, the
  handler returns the error result with the message of the exception and makes no call.
\<close>

theorem analyze_text_prompt:
  "(\<forall>shown. py_str (dict_get arguments ''text'' (PStr '''')) = Inr shown \<longrightarrow>
      (\<exists>q p. snd (handle_analyze_text B arguments log) = log @ [ChatCreate q]
         \<and> chat_messages q = [(''user'', PStr p)]
         \<and> (arguments ''analysis_type'' = Some (PStr ''sentiment'') \<longrightarrow>
              p = ''Analyze the sentiment of this text: '' @ shown
              \<and> sublist ''Analyze the sentiment of this text:'' p)
         \<and> (arguments ''analysis_type'' = Some (PStr ''keywords'') \<longrightarrow>
              p = ''Extract key keywords from this text: '' @ shown)
         \<and> (arguments ''analysis_type'' \<noteq> Some (PStr ''sentiment'')
              \<and> arguments ''analysis_type'' \<noteq> Some (PStr ''keywords'') \<longrightarrow>
              p = ''Provide a brief summary of this text: '' @ shown)))
   \<and> (\<forall>e. py_str (dict_get arguments ''text'' (PStr '''')) = Inl e \<longrightarrow>
        handle_analyze_text B arguments log =
          (Inr \<lparr>content = [\<lparr>ctype = ''text'',
                              ctext = ''Error analyzing text: '' @ exc_str e\<rparr>],
                isError = True\<rparr>, log))"
proof (intro conjI allI impI)
  fix e
  assume "py_str (dict_get arguments ''text'' (PStr '''')) = Inl e"
  then show "handle_analyze_text B arguments log =
          (Inr \<lparr>content = [\<lparr>ctype = ''text'',
                              ctext = ''Error analyzing text: '' @ exc_str e\<rparr>],
                isError = True\<rparr>, log)"
    by (rule analyze_text_unformattable)
next
  fix shown
  assume formatted: "py_str (dict_get arguments ''text'' (PStr '''')) = Inr shown"
  show "\<exists>q p. snd (handle_analyze_text B arguments log) = log @ [ChatCreate q]
         \<and> chat_messages q = [(''user'', PStr p)]
         \<and> (arguments ''analysis_type'' = Some (PStr ''sentiment'') \<longrightarrow>
              p = ''Analyze the sentiment of this text: '' @ shown
              \<and> sublist ''Analyze the sentiment of this text:'' p)
         \<and> (arguments ''analysis_type'' = Some (PStr ''keywords'') \<longrightarrow>
              p = ''Extract key keywords from this text: '' @ shown)
         \<and> (arguments ''analysis_type'' \<noteq> Some (PStr ''sentiment'')
              \<and> arguments ''analysis_type'' \<noteq> Some (PStr ''keywords'') \<longrightarrow>
              p = ''Provide a brief summary of this text: '' @ shown)"
  proof -
    define kind where "kind = dict_get arguments ''analysis_type'' (PStr ''summary'')"
    define p where "p =
      (if kind = PStr ''sentiment'' then ''Analyze the sentiment of this text: '' @ shown
       else if kind = PStr ''keywords'' then ''Extract key keywords from this text: '' @ shown
       else ''Provide a brief summary of this text: '' @ shown)"
    define q where "q = \<lparr>chat_model = PStr ''gpt-3.5-turbo'',
                           chat_messages = [(''user'', PStr p)],
                           chat_max_tokens = PInt 500\<rparr>"
    have log: "snd (handle_analyze_text B arguments log) = log @ [ChatCreate q]"
      unfolding q_def p_def kind_def
      by (rule analyze_text_log [where arguments = arguments, OF formatted])
    have msgs: "chat_messages q = [(''user'', PStr p)]"
      unfolding q_def by (simp only: chat_request.simps)
    have case_sentiment: "p = ''Analyze the sentiment of this text: '' @ shown
        \<and> sublist ''Analyze the sentiment of this text:'' p"
      if "arguments ''analysis_type'' = Some (PStr ''sentiment'')"
    proof -
      from that have "kind = PStr ''sentiment''"
        unfolding kind_def by (rule dict_get_present)
      then have eq: "p = ''Analyze the sentiment of this text: '' @ shown"
        unfolding p_def by (simp only: if_True simp_thms)
      have "sublist ''Analyze the sentiment of this text:''
              (''Analyze the sentiment of this text:'' @ ('' '' @ shown))"
        by (rule sublist_append_rightI)
      also have "''Analyze the sentiment of this text:'' @ ('' '' @ shown) = p"
        unfolding eq by simp
      finally show ?thesis using eq by (rule conjI [rotated])
    qed
    have case_keywords: "p = ''Extract key keywords from this text: '' @ shown"
      if "arguments ''analysis_type'' = Some (PStr ''keywords'')"
    proof -
      from that have "kind = PStr ''keywords''"
        unfolding kind_def by (rule dict_get_present)
      then show ?thesis
        unfolding p_def by (simp only: summary_is_no_other_type if_True if_False simp_thms)
    qed
    have case_other: "p = ''Provide a brief summary of this text: '' @ shown"
      if "arguments ''analysis_type'' \<noteq> Some (PStr ''sentiment'')
          \<and> arguments ''analysis_type'' \<noteq> Some (PStr ''keywords'')"
    proof -
      have "kind \<noteq> PStr ''sentiment'' \<and> kind \<noteq> PStr ''keywords''"
      proof (cases "arguments ''analysis_type''")
        case None
        then have "kind = PStr ''summary''" unfolding kind_def by (rule dict_get_absent)
        then show ?thesis by (simp only: summary_is_no_other_type simp_thms)
      next
        case (Some v)
        then have "kind = v" unfolding kind_def by (rule dict_get_present)
        with Some that show ?thesis by (simp only: option.inject simp_thms)
      qed
      then show ?thesis unfolding p_def by (simp only: if_False simp_thms)
    qed
    from log msgs case_sentiment case_keywords case_other show ?thesis
        by blast
  qed
qed

theorem analyze_text_prompt_witness:
  "(\<exists>q. snd (handle_analyze_text (fixed_backend ''fine'')
             [''text'' \<mapsto> PStr ''I like it'', ''analysis_type'' \<mapsto> PStr ''sentiment''] [])
           = [] @ [ChatCreate q]
       \<and> chat_messages q = [(''user'', PStr ''Analyze the sentiment of this text: I like it'')])
   \<and> (\<exists>q. snd (handle_analyze_text (fixed_backend ''fine'')
             [''text'' \<mapsto> PStr ''I like it'', ''analysis_type'' \<mapsto> PStr ''keywords''] [])
           = [] @ [ChatCreate q]
       \<and> chat_messages q = [(''user'', PStr ''Extract key keywords from this text: I like it'')])
   \<and> (\<exists>q. snd (handle_analyze_text (fixed_backend ''fine'')
             [''text'' \<mapsto> PStr ''I like it'', ''analysis_type'' \<mapsto> PStr ''bogus''] [])
           = [] @ [ChatCreate q]
       \<and> chat_messages q = [(''user'', PStr ''Provide a brief summary of this text: I like it'')])
   \<and> handle_analyze_text (fixed_backend ''fine'') [''text'' \<mapsto> POther None] [] =
       (Inr \<lparr>content = [\<lparr>ctype = ''text'',
                           ctext = ''Error analyzing text: '' @ exc_str ValueError\<rparr>],
             isError = True\<rparr>, [])"
proof -
  let ?B = "fixed_backend ''fine''"
  let ?s = "[''text'' \<mapsto> PStr ''I like it'', ''analysis_type'' \<mapsto> PStr ''sentiment'']"
  let ?k = "[''text'' \<mapsto> PStr ''I like it'', ''analysis_type'' \<mapsto> PStr ''keywords'']"
  let ?b = "[''text'' \<mapsto> PStr ''I like it'', ''analysis_type'' \<mapsto> PStr ''bogus'']"
  let ?u = "[''text'' \<mapsto> POther None]"
  have s: "?s ''analysis_type'' = Some (PStr ''sentiment'')"
    and k: "?k ''analysis_type'' = Some (PStr ''keywords'')"
    and b: "?b ''analysis_type'' \<noteq> Some (PStr ''sentiment'')
            \<and> ?b ''analysis_type'' \<noteq> Some (PStr ''keywords'')"
    by simp_all
  have texts: "py_str (dict_get ?s ''text'' (PStr '''')) = Inr ''I like it''"
    "py_str (dict_get ?k ''text'' (PStr '''')) = Inr ''I like it''"
    "py_str (dict_get ?b ''text'' (PStr '''')) = Inr ''I like it''"
    "py_str (dict_get ?u ''text'' (PStr '''')) = Inl ValueError"
    by (simp_all add: dict_get_def)
  from analyze_text_prompt [of ?s ?B "[]"] s texts(1)
  have first: "\<exists>q. snd (handle_analyze_text ?B ?s []) = [] @ [ChatCreate q]
       \<and> chat_messages q = [(''user'', PStr (''Analyze the sentiment of this text: '' @ ''I like it''))]"
    by blast
  from analyze_text_prompt [of ?k ?B "[]"] k texts(2)
  have second: "\<exists>q. snd (handle_analyze_text ?B ?k []) = [] @ [ChatCreate q]
       \<and> chat_messages q = [(''user'', PStr (''Extract key keywords from this text: '' @ ''I like it''))]"
    by blast
  from analyze_text_prompt [of ?b ?B "[]"] b texts(3)
  have third: "\<exists>q. snd (handle_analyze_text ?B ?b []) = [] @ [ChatCreate q]
       \<and> chat_messages q = [(''user'', PStr (''Provide a brief summary of this text: '' @ ''I like it''))]"
    by blast
  from analyze_text_prompt [of ?u ?B "[]"] texts(4)
  have fourth: "handle_analyze_text ?B ?u [] =
       (Inr \<lparr>content = [\<lparr>ctype = ''text'',
                           ctext = ''Error analyzing text: '' @ exc_str ValueError\<rparr>],
             isError = True\<rparr>, [])"
    by blast
  from first second third have "(\<exists>q. snd (handle_analyze_text ?B ?s []) = [] @ [ChatCreate q]
       \<and> chat_messages q = [(''user'', PStr ''Analyze the sentiment of this text: I like it'')])
   \<and> (\<exists>q. snd (handle_analyze_text ?B ?k []) = [] @ [ChatCreate q]
       \<and> chat_messages q = [(''user'', PStr ''Extract key keywords from this text: I like it'')])
   \<and> (\<exists>q. snd (handle_analyze_text ?B ?b []) = [] @ [ChatCreate q]
       \<and> chat_messages q = [(''user'', PStr ''Provide a brief summary of this text: I like it'')])"
    by simp
  with fourth show ?thesis by (intro conjI) blast+
qed

text \<open>An integer of 4301 digits cannot be formatted, and neither can its negative.\<close>

lemma py_str_limit: "py_str (PInt (10 ^ int_max_str_digits)) = Inl ValueError"
proof -
  have "(10::int) ^ int_max_str_digits \<le> \<bar>10 ^ int_max_str_digits\<bar>"
    by (rule abs_ge_self)
  then show ?thesis by (simp only: py_str.simps if_True)
qed

lemma py_str_limit_negative: "py_str (PInt (- (10 ^ int_max_str_digits))) = Inl ValueError"
proof -
  have "(10::int) ^ int_max_str_digits \<le> \<bar>- (10 ^ int_max_str_digits)\<bar>"
    unfolding abs_minus_cancel by (rule abs_ge_self)
  then show ?thesis by (simp only: py_str.simps if_True)
qed

text \<open>
  The claim C5 as the specification has it, for every argument bundle, fails: with
  \<^verbatim>\<open>text\<close> the integer \<open>10 ^ 4300\<close>, the state after the request is the empty state it
  started from, so no completion call was made, whatever the prompt would have been.
\<close>

theorem analyze_text_prompt_counterexample:
  "snd (handle_analyze_text (fixed_backend ''fine'')
          [''text'' \<mapsto> PInt (10 ^ 4300), ''analysis_type'' \<mapsto> PStr ''sentiment''] []) = []"
proof -
  let ?a = "[''text'' \<mapsto> PInt (10 ^ int_max_str_digits),
             ''analysis_type'' \<mapsto> PStr ''sentiment'']"
  have "dict_get ?a ''text'' (PStr '''') = PInt (10 ^ int_max_str_digits)"
    by (simp add: dict_get_def)
  then have "py_str (dict_get ?a ''text'' (PStr '''')) = Inl ValueError"
    by (simp only: py_str_limit)
  then have "handle_analyze_text (fixed_backend ''fine'') ?a [] =
      (Inr \<lparr>content = [\<lparr>ctype = ''text'',
                          ctext = ''Error analyzing text: '' @ exc_str ValueError\<rparr>],
            isError = True\<rparr>, [])"
    by (rule analyze_text_unformattable)
  then have "snd (handle_analyze_text (fixed_backend ''fine'') ?a []) = []"
    by (simp only: snd_conv)
  then show ?thesis unfolding int_max_str_digits_def .
qed

text \<open>
  Claim C9, amended. For every argument bundle whose \<^verbatim>\<open>text\<close> field can be formatted,
  whatever other keys it has, \<^verbatim>\<open>analyze_text\<close> makes its completion call with the model
  \<^verbatim>\<open>"gpt-3.5-turbo"\<close> and \<^verbatim>\<open>max_tokens\<close> 500; and for every bundle it makes either no call or
  exactly that one call with these two values.
\<close>

theorem analyze_text_fixed_model:
  "(\<forall>shown. py_str (dict_get arguments ''text'' (PStr '''')) = Inr shown \<longrightarrow>
      (\<exists>q. snd (handle_analyze_text B arguments log) = log @ [ChatCreate q]
         \<and> chat_model q = PStr ''gpt-3.5-turbo''
         \<and> chat_max_tokens q = PInt 500))
   \<and> (snd (handle_analyze_text B arguments log) = log
       \<or> (\<exists>q. snd (handle_analyze_text B arguments log) = log @ [ChatCreate q]
            \<and> chat_model q = PStr ''gpt-3.5-turbo''
            \<and> chat_max_tokens q = PInt 500))"
proof -
  have called: "\<exists>q. snd (handle_analyze_text B arguments log) = log @ [ChatCreate q]
         \<and> chat_model q = PStr ''gpt-3.5-turbo''
         \<and> chat_max_tokens q = PInt 500"
    if formatted: "py_str (dict_get arguments ''text'' (PStr '''')) = Inr shown" for shown
  proof (intro exI conjI)
    show "snd (handle_analyze_text B arguments log) =
     log @ [ChatCreate
              \<lparr>chat_model = PStr ''gpt-3.5-turbo'',
               chat_messages =
                 [(''user'',
                   PStr (if dict_get arguments ''analysis_type'' (PStr ''summary'')
                            = PStr ''sentiment''
                         then ''Analyze the sentiment of this text: '' @ shown
                         else if dict_get arguments ''analysis_type'' (PStr ''summary'')
                            = PStr ''keywords''
                         then ''Extract key keywords from this text: '' @ shown
                         else ''Provide a brief summary of this text: '' @ shown))],
               chat_max_tokens = PInt 500\<rparr>]"
      by (rule analyze_text_log [where arguments = arguments, OF formatted])
  qed (simp_all only: chat_request.simps)
  have either: "snd (handle_analyze_text B arguments log) = log
       \<or> (\<exists>q. snd (handle_analyze_text B arguments log) = log @ [ChatCreate q]
            \<and> chat_model q = PStr ''gpt-3.5-turbo''
            \<and> chat_max_tokens q = PInt 500)"
  proof (cases "py_str (dict_get arguments ''text'' (PStr ''''))")
    case (Inl e)
    have "snd (handle_analyze_text B arguments log) = log"
      unfolding analyze_text_unformattable [where arguments = arguments, OF Inl] snd_conv
      by (rule refl)
    then show ?thesis by (rule disjI1)
  next
    case (Inr shown)
    then show ?thesis by (intro disjI2 called)
  qed
  from called either show ?thesis by blast
qed

theorem analyze_text_fixed_model_witness:
  "\<exists>q. snd (handle_analyze_text (fixed_backend ''fine'')
            [''text'' \<mapsto> PStr ''abc'', ''model'' \<mapsto> PStr ''gpt-4'', ''max_tokens'' \<mapsto> PInt 9] [])
         = [] @ [ChatCreate q]
     \<and> chat_model q = PStr ''gpt-3.5-turbo''
     \<and> chat_max_tokens q = PInt 500"
proof -
  let ?a = "[''text'' \<mapsto> PStr ''abc'', ''model'' \<mapsto> PStr ''gpt-4'', ''max_tokens'' \<mapsto> PInt 9]"
  have formatted: "py_str (dict_get ?a ''text'' (PStr '''')) = Inr ''abc''"
    by (simp add: dict_get_def)
  from analyze_text_fixed_model [of ?a "fixed_backend ''fine''" "[]"] formatted
  show ?thesis by blast
qed

text \<open>
  The claim C9 as the specification has it, for every argument bundle, fails: with
  \<^verbatim>\<open>text\<close> the integer \<open>- (10 ^ 4300)\<close> no completion call is made at all, with whatever
  model; the state after the request is the empty state it started from.
\<close>

theorem analyze_text_fixed_model_counterexample:
  "snd (handle_analyze_text (fixed_backend ''fine'')
          [''text'' \<mapsto> PInt (- (10 ^ 4300)), ''model'' \<mapsto> PStr ''gpt-4''] []) = []"
proof -
  let ?a = "[''text'' \<mapsto> PInt (- (10 ^ int_max_str_digits)), ''model'' \<mapsto> PStr ''gpt-4'']"
  have "dict_get ?a ''text'' (PStr '''') = PInt (- (10 ^ int_max_str_digits))"
    by (simp add: dict_get_def)
  then have "py_str (dict_get ?a ''text'' (PStr '''')) = Inl ValueError"
    by (simp only: py_str_limit_negative)
  then have "handle_analyze_text (fixed_backend ''fine'') ?a [] =
      (Inr \<lparr>content = [\<lparr>ctype = ''text'',
                          ctext = ''Error analyzing text: '' @ exc_str ValueError\<rparr>],
            isError = True\<rparr>, [])"
    by (rule analyze_text_unformattable)
  then have "snd (handle_analyze_text (fixed_backend ''fine'') ?a []) = []"
    by (simp only: snd_conv)
  then show ?thesis unfolding int_max_str_digits_def .
qed

section \<open>Required fields, and the call of generate_image\<close>

lemma dict_get_fill:
  "d key = None \<Longrightarrow> dict_get (d(key \<mapsto> dflt)) key dflt' = dflt"
  by (simp add: dict_get_def)

lemma dict_get_elsewhere:
  "key' \<noteq> key \<Longrightarrow> dict_get (d(key \<mapsto> v)) key' dflt = dict_get d key' dflt"
  by (simp add: dict_get_def)

lemma field_names_differ:
  "''model'' \<noteq> ''message''" "''max_tokens'' \<noteq> ''message''"
  "''size'' \<noteq> ''prompt''" "''quality'' \<noteq> ''prompt''"
  "''analysis_type'' \<noteq> ''text''"
  by simp_all

lemma if_in_three: "(if a then x else if b then y else z) \<in> {x, y, z}"
  by simp

lemma chat_completion_fill_message:
  assumes "arguments ''message'' = None"
  shows "handle_chat_completion B (arguments(''message'' \<mapsto> PStr '''')) log =
         handle_chat_completion B arguments log"
  unfolding handle_chat_completion_def
  by (simp only: dict_get_fill [where d = arguments and key = "''message''", OF assms]
        dict_get_absent [where d = arguments and key = "''message''", OF assms]
        dict_get_elsewhere [OF field_names_differ(1)]
        dict_get_elsewhere [OF field_names_differ(2)])

lemma generate_image_fill_prompt:
  assumes "arguments ''prompt'' = None"
  shows "handle_generate_image B (arguments(''prompt'' \<mapsto> PStr '''')) log =
         handle_generate_image B arguments log"
  unfolding handle_generate_image_def
  by (simp only: dict_get_fill [where d = arguments and key = "''prompt''", OF assms]
        dict_get_absent [where d = arguments and key = "''prompt''", OF assms]
        dict_get_elsewhere [OF field_names_differ(3)]
        dict_get_elsewhere [OF field_names_differ(4)])

lemma analyze_text_fill_text:
  assumes "arguments ''text'' = None"
  shows "handle_analyze_text B (arguments(''text'' \<mapsto> PStr '''')) log =
         handle_analyze_text B arguments log"
  unfolding handle_analyze_text_def
  by (simp only: dict_get_fill [where d = arguments and key = "''text''", OF assms]
        dict_get_absent [where d = arguments and key = "''text''", OF assms]
        dict_get_elsewhere [OF field_names_differ(5)])

text \<open>
  Claim C6. When the field its schema requires is absent (\<^verbatim>\<open>message\<close>, \<^verbatim>\<open>prompt\<close>, \<^verbatim>\<open>text\<close>),
  a handler does exactly what it does for the same bundle with that field set to the
  empty string, and it makes its backend call: with the empty string as the message
  content, as the image prompt, or with nothing after the prompt template.
\<close>

theorem required_field_absent:
  "(arguments ''message'' = None \<longrightarrow>
      handle_chat_completion B arguments log =
        handle_chat_completion B (arguments(''message'' \<mapsto> PStr '''')) log
      \<and> (\<exists>q. snd (handle_chat_completion B arguments log) = log @ [ChatCreate q]
             \<and> chat_messages q = [(''user'', PStr '''')]))
   \<and> (arguments ''prompt'' = None \<longrightarrow>
      handle_generate_image B arguments log =
        handle_generate_image B (arguments(''prompt'' \<mapsto> PStr '''')) log
      \<and> (\<exists>q. snd (handle_generate_image B arguments log) = log @ [ImagesGenerate q]
             \<and> img_prompt q = PStr ''''))
   \<and> (arguments ''text'' = None \<longrightarrow>
      handle_analyze_text B arguments log =
        handle_analyze_text B (arguments(''text'' \<mapsto> PStr '''')) log
      \<and> (\<exists>q p. snd (handle_analyze_text B arguments log) = log @ [ChatCreate q]
             \<and> chat_messages q = [(''user'', PStr p)]
             \<and> p \<in> {''Analyze the sentiment of this text: '',
                      ''Extract key keywords from this text: '',
                      ''Provide a brief summary of this text: ''}))"
proof (intro conjI impI)
  assume a: "arguments ''message'' = None"
  show "handle_chat_completion B arguments log =
        handle_chat_completion B (arguments(''message'' \<mapsto> PStr '''')) log"
    by (rule chat_completion_fill_message [where arguments = arguments, OF a, symmetric])
  have "chat_messages
          \<lparr>chat_model = dict_get arguments ''model'' (PStr ''gpt-3.5-turbo''),
           chat_messages = [(''user'', dict_get arguments ''message'' (PStr ''''))],
           chat_max_tokens = dict_get arguments ''max_tokens'' (PInt 1000)\<rparr>
        = [(''user'', PStr '''')]"
    by (simp only: chat_request.simps
          dict_get_absent [where d = arguments and key = "''message''", OF a])
  with chat_completion_log [of B arguments log]
  show "\<exists>q. snd (handle_chat_completion B arguments log) = log @ [ChatCreate q]
             \<and> chat_messages q = [(''user'', PStr '''')]"
    by blast
next
  assume a: "arguments ''prompt'' = None"
  show "handle_generate_image B arguments log =
        handle_generate_image B (arguments(''prompt'' \<mapsto> PStr '''')) log"
    by (rule generate_image_fill_prompt [where arguments = arguments, OF a, symmetric])
  have "img_prompt
          \<lparr>img_model = PStr ''dall-e-3'',
           img_prompt = dict_get arguments ''prompt'' (PStr ''''),
           img_size = dict_get arguments ''size'' (PStr ''1024x1024''),
           img_quality = dict_get arguments ''quality'' (PStr ''standard''),
           img_n = 1\<rparr>
        = PStr ''''"
    by (simp only: image_request.simps
          dict_get_absent [where d = arguments and key = "''prompt''", OF a])
  with generate_image_log [of B arguments log]
  show "\<exists>q. snd (handle_generate_image B arguments log) = log @ [ImagesGenerate q]
             \<and> img_prompt q = PStr ''''"
    by blast
next
  assume a: "arguments ''text'' = None"
  show "handle_analyze_text B arguments log =
        handle_analyze_text B (arguments(''text'' \<mapsto> PStr '''')) log"
    by (rule analyze_text_fill_text [where arguments = arguments, OF a, symmetric])
  define kind where "kind = dict_get arguments ''analysis_type'' (PStr ''summary'')"
  define p where "p =
    (if kind = PStr ''sentiment'' then ''Analyze the sentiment of this text: '' @ ''''
     else if kind = PStr ''keywords'' then ''Extract key keywords from this text: '' @ ''''
     else ''Provide a brief summary of this text: '' @ '''')"
  have empty: "py_str (dict_get arguments ''text'' (PStr '''')) = Inr ''''"
    by (simp only: dict_get_absent [where d = arguments and key = "''text''", OF a]
          py_str.simps)
  have log: "snd (handle_analyze_text B arguments log) =
      log @ [ChatCreate \<lparr>chat_model = PStr ''gpt-3.5-turbo'',
                          chat_messages = [(''user'', PStr p)],
                          chat_max_tokens = PInt 500\<rparr>]"
    using analyze_text_log [where arguments = arguments and B = B and log = log, OF empty]
    unfolding p_def kind_def .
  have "p \<in> {''Analyze the sentiment of this text: '',
              ''Extract key keywords from this text: '',
              ''Provide a brief summary of this text: ''}"
    unfolding p_def append_Nil2 by (rule if_in_three)
  with log
  show "\<exists>q p. snd (handle_analyze_text B arguments log) = log @ [ChatCreate q]
             \<and> chat_messages q = [(''user'', PStr p)]
             \<and> p \<in> {''Analyze the sentiment of this text: '',
                      ''Extract key keywords from this text: '',
                      ''Provide a brief summary of this text: ''}"
    by (intro exI [of _ "\<lparr>chat_model = PStr ''gpt-3.5-turbo'',
                          chat_messages = [(''user'', PStr p)],
                          chat_max_tokens = PInt 500\<rparr>"] exI [of _ p] conjI)
      (simp_all only: chat_request.simps)
qed

theorem required_field_absent_witness:
  "(\<exists>q. snd (handle_chat_completion (fixed_backend ''ok'') Map.empty [])
           = [] @ [ChatCreate q]
       \<and> chat_messages q = [(''user'', PStr '''')])
   \<and> (\<exists>q. snd (handle_generate_image (fixed_backend ''ok'') Map.empty [])
           = [] @ [ImagesGenerate q]
       \<and> img_prompt q = PStr '''')
   \<and> (\<exists>q. snd (handle_analyze_text (fixed_backend ''ok'') Map.empty [])
           = [] @ [ChatCreate q]
       \<and> chat_messages q = [(''user'', PStr ''Provide a brief summary of this text: '')])
   \<and> handle_chat_completion (fixed_backend ''ok'') Map.empty [] =
       handle_chat_completion (fixed_backend ''ok'') [''message'' \<mapsto> PStr ''''] []"
proof -
  have absent: "(Map.empty :: arguments) ''message'' = None"
    "(Map.empty :: arguments) ''prompt'' = None" "(Map.empty :: arguments) ''text'' = None"
    by simp_all
  have summary: "snd (handle_analyze_text (fixed_backend ''ok'') Map.empty []) =
      [] @ [ChatCreate \<lparr>chat_model = PStr ''gpt-3.5-turbo'',
              chat_messages = [(''user'', PStr ''Provide a brief summary of this text: '')],
              chat_max_tokens = PInt 500\<rparr>]"
    by (simp add: handle_analyze_text_def Let_def dict_get_def fstring_def)
  from required_field_absent [of Map.empty "fixed_backend ''ok''" "[]"] absent
  have chat: "\<exists>q. snd (handle_chat_completion (fixed_backend ''ok'') Map.empty [])
           = [] @ [ChatCreate q] \<and> chat_messages q = [(''user'', PStr '''')]"
    and image: "\<exists>q. snd (handle_generate_image (fixed_backend ''ok'') Map.empty [])
           = [] @ [ImagesGenerate q] \<and> img_prompt q = PStr ''''"
    and same: "handle_chat_completion (fixed_backend ''ok'') Map.empty [] =
       handle_chat_completion (fixed_backend ''ok'') [''message'' \<mapsto> PStr ''''] []"
    by blast+
  from summary have analyze: "\<exists>q. snd (handle_analyze_text (fixed_backend ''ok'') Map.empty [])
           = [] @ [ChatCreate q]
       \<and> chat_messages q = [(''user'', PStr ''Provide a brief summary of this text: '')]"
    by (intro exI [of _ "\<lparr>chat_model = PStr ''gpt-3.5-turbo'',
              chat_messages = [(''user'', PStr ''Provide a brief summary of this text: '')],
              chat_max_tokens = PInt 500\<rparr>"] conjI) (simp_all only: chat_request.simps)
  from chat image analyze same show ?thesis by (intro conjI)
qed

lemma dict_get_cong: "d' key = d key \<Longrightarrow> dict_get d' key dflt = dict_get d key dflt"
  by (simp add: dict_get_def)

lemma image_body_success:
  "X = Inr response \<Longrightarrow> data response = u # rest \<Longrightarrow>
   try_except
     (case X of
        Inl e \<Rightarrow> Inl e
      | Inr response \<Rightarrow>
          (case subscript0 (data response) of
             Inl e \<Rightarrow> Inl e
           | Inr image_url \<Rightarrow> Inr (F image_url)))
     H = Inr (F u)"
  by (simp add: try_except_def subscript0_def)

lemma generate_image_reads_three:
  assumes "arguments' ''prompt'' = arguments ''prompt''"
    and "arguments' ''size'' = arguments ''size''"
    and "arguments' ''quality'' = arguments ''quality''"
  shows "handle_generate_image B arguments' log = handle_generate_image B arguments log"
  unfolding handle_generate_image_def
  by (simp only:
        dict_get_cong [where d' = arguments' and d = arguments and key = "''prompt''", OF assms(1)]
        dict_get_cong [where d' = arguments' and d = arguments and key = "''size''", OF assms(2)]
        dict_get_cong [where d' = arguments' and d = arguments and key = "''quality''", OF assms(3)])

lemma generate_image_success:
  assumes "images_generate B log
             \<lparr>img_model = PStr ''dall-e-3'',
              img_prompt = dict_get arguments ''prompt'' (PStr ''''),
              img_size = dict_get arguments ''size'' (PStr ''1024x1024''),
              img_quality = dict_get arguments ''quality'' (PStr ''standard''),
              img_n = 1\<rparr> = Inr response"
    and "data response = u # rest"
  shows "fst (handle_generate_image B arguments log) =
           Inr \<lparr>content =
                  [\<lparr>ctype = ''text'',
                    ctext = ''Generated image: '' @
                      (case u of None \<Rightarrow> ''None'' | Some url \<Rightarrow> url)\<rparr>],
                isError = False\<rparr>"
  unfolding handle_generate_image_def Let_def fst_conv
  using assms by (rule image_body_success)

text \<open>
  Claim C10. For every argument bundle \<^verbatim>\<open>generate_image\<close> makes one image call with the
  model \<^verbatim>\<open>"dall-e-3"\<close> and \<^verbatim>\<open>n=1\<close>, and with \<^verbatim>\<open>prompt\<close>, \<^verbatim>\<open>size\<close> and \<^verbatim>\<open>quality\<close> from the bundle
  (or their defaults); two bundles that agree on these three keys give the same result;
  and when the backend returns a response whose first image has the URL \<open>url\<close>, the
  result is a success with the text \<^verbatim>\<open>Generated image: \<close> followed by \<open>url\<close>.
\<close>

theorem generate_image_call:
  "snd (handle_generate_image B arguments log) =
     log @ [ImagesGenerate
              \<lparr>img_model = PStr ''dall-e-3'',
               img_prompt = dict_get arguments ''prompt'' (PStr ''''),
               img_size = dict_get arguments ''size'' (PStr ''1024x1024''),
               img_quality = dict_get arguments ''quality'' (PStr ''standard''),
               img_n = 1\<rparr>]
   \<and> (\<forall>arguments'.
         arguments' ''prompt'' = arguments ''prompt''
         \<and> arguments' ''size'' = arguments ''size''
         \<and> arguments' ''quality'' = arguments ''quality'' \<longrightarrow>
         handle_generate_image B arguments' log = handle_generate_image B arguments log)
   \<and> (\<forall>response url rest.
         images_generate B log
           \<lparr>img_model = PStr ''dall-e-3'',
            img_prompt = dict_get arguments ''prompt'' (PStr ''''),
            img_size = dict_get arguments ''size'' (PStr ''1024x1024''),
            img_quality = dict_get arguments ''quality'' (PStr ''standard''),
            img_n = 1\<rparr> = Inr response
         \<and> data response = Some url # rest \<longrightarrow>
         fst (handle_generate_image B arguments log) =
           Inr \<lparr>content = [\<lparr>ctype = ''text'', ctext = ''Generated image: '' @ url\<rparr>],
                isError = False\<rparr>)"
proof (intro conjI allI impI)
  show "snd (handle_generate_image B arguments log) =
     log @ [ImagesGenerate
              \<lparr>img_model = PStr ''dall-e-3'',
               img_prompt = dict_get arguments ''prompt'' (PStr ''''),
               img_size = dict_get arguments ''size'' (PStr ''1024x1024''),
               img_quality = dict_get arguments ''quality'' (PStr ''standard''),
               img_n = 1\<rparr>]"
    by (rule generate_image_log)
next
  fix arguments' :: arguments
  assume "arguments' ''prompt'' = arguments ''prompt''
         \<and> arguments' ''size'' = arguments ''size''
         \<and> arguments' ''quality'' = arguments ''quality''"
  then show "handle_generate_image B arguments' log = handle_generate_image B arguments log"
    by (intro generate_image_reads_three) (elim conjE, assumption)+
next
  fix response url rest
  assume "images_generate B log
           \<lparr>img_model = PStr ''dall-e-3'',
            img_prompt = dict_get arguments ''prompt'' (PStr ''''),
            img_size = dict_get arguments ''size'' (PStr ''1024x1024''),
            img_quality = dict_get arguments ''quality'' (PStr ''standard''),
            img_n = 1\<rparr> = Inr response
         \<and> data response = Some url # rest"
  then have "fst (handle_generate_image B arguments log) =
           Inr \<lparr>content =
                  [\<lparr>ctype = ''text'',
                    ctext = ''Generated image: '' @
                      (case Some url of None \<Rightarrow> ''None'' | Some url \<Rightarrow> url)\<rparr>],
                isError = False\<rparr>"
    by (intro generate_image_success) (elim conjE, assumption)+
  then show "fst (handle_generate_image B arguments log) =
           Inr \<lparr>content = [\<lparr>ctype = ''text'', ctext = ''Generated image: '' @ url\<rparr>],
                isError = False\<rparr>"
    by (simp only: option.case)
qed

theorem generate_image_call_witness:
  "snd (handle_generate_image (fixed_backend ''https://img.example/1.png'')
          [''prompt'' \<mapsto> PStr ''a cat'', ''n'' \<mapsto> PInt 4, ''model'' \<mapsto> PStr ''dall-e-2''] [])
     = [] @ [ImagesGenerate
              \<lparr>img_model = PStr ''dall-e-3'',
               img_prompt = PStr ''a cat'',
               img_size = PStr ''1024x1024'',
               img_quality = PStr ''standard'',
               img_n = 1\<rparr>]
   \<and> handle_generate_image (fixed_backend ''https://img.example/1.png'')
         [''prompt'' \<mapsto> PStr ''a cat''] []
     = handle_generate_image (fixed_backend ''https://img.example/1.png'')
         [''prompt'' \<mapsto> PStr ''a cat'', ''n'' \<mapsto> PInt 4, ''model'' \<mapsto> PStr ''dall-e-2''] []
   \<and> fst (handle_generate_image (fixed_backend ''https://img.example/1.png'')
          [''prompt'' \<mapsto> PStr ''a cat'', ''n'' \<mapsto> PInt 4, ''model'' \<mapsto> PStr ''dall-e-2''] [])
     = Inr \<lparr>content = [\<lparr>ctype = ''text'',
                         ctext = ''Generated image: https://img.example/1.png''\<rparr>],
            isError = False\<rparr>"
proof -
  let ?B = "fixed_backend ''https://img.example/1.png''"
  let ?a = "[''prompt'' \<mapsto> PStr ''a cat'', ''n'' \<mapsto> PInt 4, ''model'' \<mapsto> PStr ''dall-e-2'']"
  let ?a' = "[''prompt'' \<mapsto> PStr ''a cat'']"
  let ?q = "\<lparr>img_model = PStr ''dall-e-3'',
            img_prompt = dict_get ?a ''prompt'' (PStr ''''),
            img_size = dict_get ?a ''size'' (PStr ''1024x1024''),
            img_quality = dict_get ?a ''quality'' (PStr ''standard''),
            img_n = 1\<rparr>"
  have fields: "dict_get ?a ''prompt'' (PStr '''') = PStr ''a cat''"
    "dict_get ?a ''size'' (PStr ''1024x1024'') = PStr ''1024x1024''"
    "dict_get ?a ''quality'' (PStr ''standard'') = PStr ''standard''"
    by (simp_all add: dict_get_def)
  have agree: "?a' ''prompt'' = ?a ''prompt'' \<and> ?a' ''size'' = ?a ''size''
      \<and> ?a' ''quality'' = ?a ''quality''"
    by simp
  have returned: "images_generate ?B [] ?q = Inr \<lparr>data = [Some ''https://img.example/1.png'']\<rparr>
      \<and> data \<lparr>data = [Some ''https://img.example/1.png'']\<rparr>
          = Some ''https://img.example/1.png'' # []"
    by (simp add: fixed_backend_def)
  note inst = generate_image_call [of ?B ?a "[]"]
  from inst have one: "snd (handle_generate_image ?B ?a []) = [] @ [ImagesGenerate ?q]"
    by (rule conjunct1)
  from inst agree have two: "handle_generate_image ?B ?a' [] = handle_generate_image ?B ?a []"
    by blast
  from inst returned have three: "fst (handle_generate_image ?B ?a []) =
      Inr \<lparr>content = [\<lparr>ctype = ''text'',
                        ctext = ''Generated image: '' @ ''https://img.example/1.png''\<rparr>],
           isError = False\<rparr>"
    by blast
  from one two three show ?thesis
    unfolding fields by simp
qed

section \<open>Listing the tools\<close>

lemma list_tools_keeps_state: "snd (handle_list_tools log) = log"
  unfolding handle_list_tools_def snd_conv by (rule refl)

lemma list_tools_ignores_state: "fst (handle_list_tools log) = fst (handle_list_tools log')"
  unfolding handle_list_tools_def fst_conv by (rule refl)

lemma list_tools_pair: "handle_list_tools log = (fst (handle_list_tools []), log)"
  by (rule prod_eqI)
    (simp_all only: fst_conv snd_conv list_tools_keeps_state list_tools_ignores_state [of log "[]"])

lemma repeat_list_tools_replicate:
  "repeat_list_tools n log = (replicate n (fst (handle_list_tools [])), log)"
proof (induction n)
  case 0
  show ?case by simp
next
  case (Suc n)
  have "repeat_list_tools (Suc n) log =
      (case (fst (handle_list_tools []), log) of
         (r, log') \<Rightarrow>
           (case repeat_list_tools n log' of (rs, log'') \<Rightarrow> (r # rs, log'')))"
    by (simp only: repeat_list_tools.simps list_tools_pair [of log])
  also have "\<dots> = (fst (handle_list_tools []) # replicate n (fst (handle_list_tools [])), log)"
    by (simp only: prod.case Suc.IH)
  finally show ?case by (simp only: replicate_Suc)
qed

text \<open>
  Claim C7. \<^verbatim>\<open>list_tools\<close> is idempotent and free of side effects. Any number of calls in
  a row leave the state as it was and return as many catalogs, any two of which are
  equal, so equal in their tool names, fields, required fields and declared defaults;
  and the catalog does not depend on the state the call is made in.
\<close>

theorem list_tools_idempotent:
  "snd (repeat_list_tools n log) = log
   \<and> length (fst (repeat_list_tools n log)) = n
   \<and> (\<forall>r \<in> set (fst (repeat_list_tools n log)).
        \<forall>r' \<in> set (fst (repeat_list_tools n log)).
          r = r'
          \<and> tool_names r = tool_names r'
          \<and> field_sets r = field_sets r'
          \<and> required_lists r = required_lists r'
          \<and> declared_defaults r = declared_defaults r')
   \<and> snd (handle_list_tools log) = log
   \<and> fst (handle_list_tools log) = fst (handle_list_tools log')"
proof (intro conjI ballI)
  show "snd (repeat_list_tools n log) = log"
    by (simp only: repeat_list_tools_replicate snd_conv)
  show "length (fst (repeat_list_tools n log)) = n"
    by (simp only: repeat_list_tools_replicate fst_conv length_replicate)
  show "snd (handle_list_tools log) = log"
    by (rule list_tools_keeps_state)
  show "fst (handle_list_tools log) = fst (handle_list_tools log')"
    by (rule list_tools_ignores_state)
next
  fix r r'
  assume "r \<in> set (fst (repeat_list_tools n log))"
    and "r' \<in> set (fst (repeat_list_tools n log))"
  then have "r = fst (handle_list_tools [])" and "r' = fst (handle_list_tools [])"
    by (simp_all only: repeat_list_tools_replicate fst_conv in_set_replicate)
  then show same: "r = r'" by (simp only:)
  then show "tool_names r = tool_names r'" "field_sets r = field_sets r'"
    "required_lists r = required_lists r'" "declared_defaults r = declared_defaults r'"
    by (simp_all only:)
qed

theorem list_tools_idempotent_witness:
  "snd (repeat_list_tools 2 []) = []
   \<and> length (fst (repeat_list_tools 2 [])) = 2
   \<and> fst (repeat_list_tools 2 []) ! 0 = fst (repeat_list_tools 2 []) ! 1
   \<and> declared_defaults (fst (repeat_list_tools 2 []) ! 0)
       = declared_defaults (fst (repeat_list_tools 2 []) ! 1)
   \<and> tool_names (fst (handle_list_tools [])) =
       {''chat_completion'', ''generate_image'', ''analyze_text''}"
proof -
  note inst = list_tools_idempotent [of 2 "[]" "[]"]
  from inst have len: "length (fst (repeat_list_tools 2 [])) = 2" by blast
  have m0: "fst (repeat_list_tools 2 []) ! 0 \<in> set (fst (repeat_list_tools 2 []))"
    by (rule nth_mem) (simp add: len)
  have m1: "fst (repeat_list_tools 2 []) ! 1 \<in> set (fst (repeat_list_tools 2 []))"
    by (rule nth_mem) (simp add: len)
  from inst m0 m1
  have eq: "fst (repeat_list_tools 2 []) ! 0 = fst (repeat_list_tools 2 []) ! 1"
    and dd: "declared_defaults (fst (repeat_list_tools 2 []) ! 0)
       = declared_defaults (fst (repeat_list_tools 2 []) ! 1)"
    by blast+
  from inst have st: "snd (repeat_list_tools 2 []) = []" by blast
  have names: "tool_names (fst (handle_list_tools [])) =
       {''chat_completion'', ''generate_image'', ''analyze_text''}"
    by (simp add: tool_names_def handle_list_tools_def)
  from st len eq dd names show ?thesis by (intro conjI)
qed

section \<open>Startup and exit codes\<close>

lemma main_without_key:
  "api_key = None \<or> api_key = Some [] \<Longrightarrow>
   main api_key run =
     (SystemExit 1,
      [Stdout ''Error: OPENAI_API_KEY environment variable is not set'',
       Stdout ''Please set your OpenAI API key in the .env file or environment''])"
  unfolding main_def by (simp only: if_True)

lemma main_with_key:
  assumes "api_key \<noteq> None" and "api_key \<noteq> Some []"
  shows "\<exists>banner. ServerRun \<in> set (banner @ [ServerRun]) \<and>
     main api_key run =
       (case run of
          Inl e \<Rightarrow> (Raised e, banner @ [ServerRun])
        | Inr u \<Rightarrow> (Returned, banner @ [ServerRun]))"
proof -
  have cond: "(api_key = None \<or> api_key = Some []) = False"
    using assms by simp
  show ?thesis
    unfolding main_def Let_def cond if_False
    by (rule exI, rule conjI [OF _ refl]) simp
qed

text \<open>
  Claim C8. When \<^verbatim>\<open>OPENAI_API_KEY\<close> is absent (unset, or set to the empty string) the
  process ends with exit code 1 and never calls \<^verbatim>\<open>server.server.run\<close>, so no negotiation
  and no dispatch takes place; what it emits is a diagnostic and nothing else: the two
  lines \<^verbatim>\<open>main\<close> prints or, when the client constructor at module level has already
  raised, the traceback of that exception. The exit code is 0 only if the key is
  present and \<^verbatim>\<open>server.server.run\<close> was entered and returned; and it is 0 whenever the key
  is present, the client was built and the server returned.
\<close>

theorem missing_key_is_fatal:
  "(api_key = None \<or> api_key = Some [] \<longrightarrow>
      fst (run_module api_key client_init run) = 1
      \<and> ServerRun \<notin> set (snd (run_module api_key client_init run))
      \<and> (snd (run_module api_key client_init run) =
            [Stdout ''Error: OPENAI_API_KEY environment variable is not set'',
             Stdout ''Please set your OpenAI API key in the .env file or environment'']
          \<or> (\<exists>e. client_init api_key = Inl e
                 \<and> snd (run_module api_key client_init run) = [Traceback e])))
   \<and> (fst (run_module api_key client_init run) = 0 \<longrightarrow>
        api_key \<noteq> None \<and> api_key \<noteq> Some []
        \<and> run = Inr ()
        \<and> ServerRun \<in> set (snd (run_module api_key client_init run)))
   \<and> (api_key \<noteq> None \<and> api_key \<noteq> Some [] \<and> client_init api_key = Inr () \<and> run = Inr ()
        \<longrightarrow> fst (run_module api_key client_init run) = 0)"
proof (intro conjI impI)
  assume absent: "api_key = None \<or> api_key = Some []"
  note m = main_without_key [OF absent, of run]
  show "fst (run_module api_key client_init run) = 1"
    unfolding run_module_def m by (cases "client_init api_key") simp_all
  show "ServerRun \<notin> set (snd (run_module api_key client_init run))"
    unfolding run_module_def m by (cases "client_init api_key") simp_all
  show "snd (run_module api_key client_init run) =
            [Stdout ''Error: OPENAI_API_KEY environment variable is not set'',
             Stdout ''Please set your OpenAI API key in the .env file or environment'']
          \<or> (\<exists>e. client_init api_key = Inl e
                 \<and> snd (run_module api_key client_init run) = [Traceback e])"
    unfolding run_module_def m by (cases "client_init api_key") simp_all
next
  assume zero: "fst (run_module api_key client_init run) = 0"
  have present: "api_key \<noteq> None \<and> api_key \<noteq> Some []"
  proof (rule ccontr)
    assume "\<not> (api_key \<noteq> None \<and> api_key \<noteq> Some [])"
    then have absent: "api_key = None \<or> api_key = Some []" by blast
    have "fst (run_module api_key client_init run) = 1"
      unfolding run_module_def main_without_key [OF absent, of run]
      by (cases "client_init api_key") simp_all
    with zero show False by simp
  qed
  then show "api_key \<noteq> None" and "api_key \<noteq> Some []" by blast+
  from present main_with_key [of api_key run] obtain banner
    where banner: "ServerRun \<in> set (banner @ [ServerRun])"
      and m: "main api_key run =
       (case run of
          Inl e \<Rightarrow> (Raised e, banner @ [ServerRun])
        | Inr u \<Rightarrow> (Returned, banner @ [ServerRun]))"
    by blast
  from zero show "run = Inr ()"
    unfolding run_module_def m
    by (cases "client_init api_key"; cases run) simp_all
  from zero banner show "ServerRun \<in> set (snd (run_module api_key client_init run))"
    unfolding run_module_def m
    by (cases "client_init api_key"; cases run) simp_all
next
  assume ok: "api_key \<noteq> None \<and> api_key \<noteq> Some [] \<and> client_init api_key = Inr () \<and> run = Inr ()"
  with main_with_key [of api_key run] obtain banner
    where m: "main api_key run =
       (case run of
          Inl e \<Rightarrow> (Raised e, banner @ [ServerRun])
        | Inr u \<Rightarrow> (Returned, banner @ [ServerRun]))"
    by blast
  from ok show "fst (run_module api_key client_init run) = 0"
    unfolding run_module_def m by simp
qed

theorem missing_key_is_fatal_witness:
  "run_module None (\<lambda>k. Inr ()) (Inr ()) =
     (1, [Stdout ''Error: OPENAI_API_KEY environment variable is not set'',
          Stdout ''Please set your OpenAI API key in the .env file or environment''])
   \<and> fst (run_module (Some []) (\<lambda>k. Inr ()) (Inr ())) = 1
   \<and> run_module None
        (\<lambda>k. if k = None then Inl (BackendError ''The api_key client option must be set'')
             else Inr ())
        (Inr ())
      = (1, [Traceback (BackendError ''The api_key client option must be set'')])
   \<and> fst (run_module (Some ''sk-test'') (\<lambda>k. Inr ()) (Inr ())) = 0
   \<and> fst (run_module (Some ''sk-test'') (\<lambda>k. Inr ())
             (Inl (BackendError ''stream broke''))) = 1"
proof -
  let ?ok = "\<lambda>k :: string option. Inr () :: pyexc + unit"
  let ?strict = "\<lambda>k :: string option.
     if k = None then Inl (BackendError ''The api_key client option must be set'')
     else (Inr () :: pyexc + unit)"
  have none: "(None :: string option) = None \<or> (None :: string option) = Some []"
    and empty: "Some [] = (None :: string option) \<or> Some [] = Some ([] :: string)"
    by simp_all
  note a = missing_key_is_fatal [of None ?ok "Inr ()"]
  note b = missing_key_is_fatal [of "Some []" ?ok "Inr ()"]
  note c = missing_key_is_fatal [of None ?strict "Inr ()"]
  note d = missing_key_is_fatal [of "Some ''sk-test''" ?ok "Inr ()"]
  from a none have a1: "fst (run_module None ?ok (Inr ())) = 1"
    and a2: "snd (run_module None ?ok (Inr ())) =
       [Stdout ''Error: OPENAI_API_KEY environment variable is not set'',
        Stdout ''Please set your OpenAI API key in the .env file or environment'']"
    by auto
  from b empty have b1: "fst (run_module (Some []) ?ok (Inr ())) = 1" by blast
  from c none have c1: "fst (run_module None ?strict (Inr ())) = 1" by blast
  have c2: "snd (run_module None ?strict (Inr ())) =
      [Traceback (BackendError ''The api_key client option must be set'')]"
    by (simp add: run_module_def)
  from d have d1: "fst (run_module (Some ''sk-test'') ?ok (Inr ())) = 0" by simp
  have e1: "fst (run_module (Some ''sk-test'') ?ok (Inl (BackendError ''stream broke''))) = 1"
    by (simp add: run_module_def main_def)
  have "run_module None ?ok (Inr ()) =
     (1, [Stdout ''Error: OPENAI_API_KEY environment variable is not set'',
          Stdout ''Please set your OpenAI API key in the .env file or environment''])"
    using a1 a2 by (simp only: prod_eq_iff fst_conv snd_conv simp_thms)
  moreover have "run_module None ?strict (Inr ()) =
      (1, [Traceback (BackendError ''The api_key client option must be set'')])"
    using c1 c2 by (simp only: prod_eq_iff fst_conv snd_conv simp_thms)
  ultimately show ?thesis using b1 d1 e1 by (intro conjI)
qed

end
